theory Spec2Isabelle
  imports Complex_Main "HOL-Library.Sublist"
begin

section \<open>Values read from firebase.json\<close>

text \<open>
  What \<^verbatim>\<open>JSON.parse\<close> returns: null, a boolean, a (finite) number, a string, an array
  or an object. An object is the list of its own properties, each key once. The TypeScript
  interface gives \<^verbatim>\<open>port: number\<close>, but \<^verbatim>\<open>firebaseJson\<close> is of type \<^verbatim>\<open>any\<close>, so at
  run time a port is whatever value the file holds.
\<close>

datatype json =
    JNull
  | JBool bool
  | JNum rat
  | JStr string
  | JArr "json list"
  | JObj "(string \<times> json) list"

text \<open>JavaScript truthiness, as tested by \<^verbatim>\<open>!x\<close> and \<^verbatim>\<open>x || d\<close>.\<close>

fun truthy :: "json \<Rightarrow> bool" where
  "truthy JNull = False"
| "truthy (JBool b) = b"
| "truthy (JNum n) = (n \<noteq> 0)"
| "truthy (JStr s) = (s \<noteq> [])"
| "truthy (JArr xs) = True"
| "truthy (JObj kvs) = True"

text \<open>
  The property read \<^verbatim>\<open>v.k\<close> on a value that is not null, for the keys this module reads
  (\<^verbatim>\<open>emulators\<close>, the five service names and \<^verbatim>\<open>port\<close>): only an object can have them;
  on a number, string, boolean or array the read gives \<^verbatim>\<open>undefined\<close> (None).
\<close>

fun get_prop :: "json \<Rightarrow> string \<Rightarrow> json option" where
  "get_prop (JObj kvs) k = map_of kvs k"
| "get_prop v k = None"

text \<open>The optional chain \<^verbatim>\<open>x?.k\<close>: \<^verbatim>\<open>undefined\<close> when x is \<^verbatim>\<open>undefined\<close> or null.\<close>

definition opt_prop :: "json option \<Rightarrow> string \<Rightarrow> json option" where
  "opt_prop x k = (case x of None \<Rightarrow> None | Some JNull \<Rightarrow> None | Some v \<Rightarrow> get_prop v k)"

text \<open>\<^verbatim>\<open>x || d\<close> on a value that may be \<^verbatim>\<open>undefined\<close>.\<close>

definition or_default :: "json option \<Rightarrow> json \<Rightarrow> json" where
  "or_default x d = (case x of None \<Rightarrow> d | Some v \<Rightarrow> if truthy v then v else d)"

fun join :: "string \<Rightarrow> string list \<Rightarrow> string" where
  "join sep [] = []"
| "join sep [x] = x"
| "join sep (x # y # ys) = x @ sep @ join sep (y # ys)"

text \<open>
  The string conversion of a template literal \<^verbatim>\<open>`${v}`\<close>. The first argument is the
  host's conversion of a number. None is the TypeError thrown for an object of the file
  that has a \<^verbatim>\<open>toString\<close> property of its own (a value of the file is never callable,
  and \<^verbatim>\<open>valueOf\<close> returns the object). An array joins its elements with a comma, null
  elements giving the empty string.
\<close>

fun toString :: "(rat \<Rightarrow> string) \<Rightarrow> json \<Rightarrow> string option"
  and toStrings :: "(rat \<Rightarrow> string) \<Rightarrow> json list \<Rightarrow> string list option" where
  "toString nts JNull = Some ''null''"
| "toString nts (JBool b) = Some (if b then ''true'' else ''false'')"
| "toString nts (JNum n) = Some (nts n)"
| "toString nts (JStr s) = Some s"
| "toString nts (JArr xs) = map_option (join '','') (toStrings nts xs)"
| "toString nts (JObj kvs) =
     (if ''toString'' \<in> set (map fst kvs) then None else Some ''[object Object]'')"
| "toStrings nts [] = Some []"
| "toStrings nts (x # xs) =
     (case (if x = JNull then Some [] else toString nts x) of
        None \<Rightarrow> None
      | Some s \<Rightarrow> map_option ((#) s) (toStrings nts xs))"

section \<open>The runtime the module runs in\<close>

text \<open>
  The outcome of looking for, reading and parsing \<^verbatim>\<open>firebase.json\<close> in the working
  directory: \<^verbatim>\<open>existsSync\<close> is false; or reading (or loading \<^verbatim>\<open>fs\<close> and \<^verbatim>\<open>path\<close>) throws;
  or \<^verbatim>\<open>JSON.parse\<close> throws; or a value is parsed.
\<close>

datatype file_outcome = NotFound | ReadFailure | Malformed | Parsed json

text \<open>
  \<^verbatim>\<open>isNode\<close> is the module constant, \<^verbatim>\<open>process_env\<close> is \<^verbatim>\<open>process.env\<close>, and
  \<^verbatim>\<open>numberToString\<close> is the host's conversion of a number to a string.
\<close>

record runtime =
  isNode :: bool
  process_env :: "string \<Rightarrow> string option"
  firebase_json :: file_outcome
  numberToString :: "rat \<Rightarrow> string"

text \<open>Truthiness of an environment variable: set, and not the empty string.\<close>

definition present :: "string option \<Rightarrow> bool" where
  "present v = (case v of None \<Rightarrow> False | Some s \<Rightarrow> s \<noteq> [])"

definition or_else :: "string option \<Rightarrow> string option \<Rightarrow> string option" where
  "or_else a b = (if present a then a else b)"

section \<open>types.ts\<close>

record EmulatorEndpoint =
  host :: string
  port :: json

record AuthEndpoint = EmulatorEndpoint +
  url :: string

record FunctionsEndpoint = EmulatorEndpoint +
  baseUrl :: string

text \<open>The field \<^verbatim>\<open>functions\<close> is written \<^verbatim>\<open>functions'\<close>.\<close>

record EmulatorConfig =
  auth :: AuthEndpoint
  firestore :: EmulatorEndpoint
  functions' :: FunctionsEndpoint
  storage :: EmulatorEndpoint
  hosting :: EmulatorEndpoint

record FirebaseConfig =
  projectId :: string
  apiKey :: "string option"
  authDomain :: "string option"
  storageBucket :: "string option"
  messagingSenderId :: "string option"
  appId :: "string option"
  emulators :: "EmulatorConfig option"

datatype Environment = Development | Staging | Production

text \<open>The type of \<^verbatim>\<open>api\<close> in \<^verbatim>\<open>AppConfig\<close>; its field \<^verbatim>\<open>baseUrl\<close> is named
  \<^verbatim>\<open>apiBaseUrl\<close> here, \<^verbatim>\<open>baseUrl\<close> being the field of the functions endpoint.\<close>

record ApiConfig =
  apiBaseUrl :: string

record AppConfig =
  environment :: Environment
  firebase :: FirebaseConfig
  api :: ApiConfig

record ValidationResult =
  valid :: bool
  errors :: "string list option"

datatype ConfigurationError =
  ConfigurationError (message: string) (details: "string option") (resolution: "string option")

section \<open>firebase-config.ts\<close>

definition getEnvironment :: "runtime \<Rightarrow> Environment" where
  "getEnvironment rt =
     (let env = or_else (process_env rt ''NEXT_PUBLIC_APP_ENV'') (process_env rt ''NODE_ENV'')
      in if env = Some ''production'' then Production
         else if env = Some ''staging'' then Staging
         else Development)"

text \<open>\<^verbatim>\<open>this.config?.firebase?.projectId || 'demo-project'\<close>, for the value of
  \<^verbatim>\<open>this.config\<close> at the time of the call (None when it is not assigned yet).\<close>

definition config_projectId :: "AppConfig option \<Rightarrow> string" where
  "config_projectId this_config =
     (case this_config of
        None \<Rightarrow> ''demo-project''
      | Some c \<Rightarrow> if projectId (firebase c) \<noteq> [] then projectId (firebase c) else ''demo-project'')"

definition getDefaultEmulatorConfig :: "AppConfig option \<Rightarrow> EmulatorConfig" where
  "getDefaultEmulatorConfig this_config =
     (let h = ''localhost''; pid = config_projectId this_config
      in \<lparr> auth = \<lparr> host = h, port = JNum 9099, url = ''http://'' @ h @ '':9099'' \<rparr>,
           firestore = \<lparr> host = h, port = JNum 8080 \<rparr>,
           functions' = \<lparr> host = h, port = JNum 5001,
                         baseUrl = ''http://'' @ h @ '':5001/'' @ pid @ ''/us-central1'' \<rparr>,
           storage = \<lparr> host = h, port = JNum 9199 \<rparr>,
           hosting = \<lparr> host = h, port = JNum 5000 \<rparr> \<rparr>)"

datatype js_exception = IOError | SyntaxError | TypeError

text \<open>The body of the \<^verbatim>\<open>try\<close> block of \<^verbatim>\<open>loadEmulatorConfig\<close>; Inl is a thrown exception.\<close>

definition readEmulatorConfig :: "runtime \<Rightarrow> AppConfig option \<Rightarrow> js_exception + EmulatorConfig" where
  "readEmulatorConfig rt this_config =
     (case firebase_json rt of
        NotFound \<Rightarrow> Inr (getDefaultEmulatorConfig this_config)
      | ReadFailure \<Rightarrow> Inl IOError
      | Malformed \<Rightarrow> Inl SyntaxError
      | Parsed firebaseJson \<Rightarrow>
          if firebaseJson = JNull then Inl TypeError
          else (case get_prop firebaseJson ''emulators'' of
             None \<Rightarrow> Inr (getDefaultEmulatorConfig this_config)
           | Some ems \<Rightarrow>
               if \<not> truthy ems then Inr (getDefaultEmulatorConfig this_config)
               else
                 (let h = ''localhost'';
                      pid = config_projectId this_config;
                      authPort = or_default (opt_prop (get_prop ems ''auth'') ''port'') (JNum 9099);
                      firestorePort = or_default (opt_prop (get_prop ems ''firestore'') ''port'') (JNum 8080);
                      functionsPort = or_default (opt_prop (get_prop ems ''functions'') ''port'') (JNum 5001);
                      storagePort = or_default (opt_prop (get_prop ems ''storage'') ''port'') (JNum 9199);
                      hostingPort = or_default (opt_prop (get_prop ems ''hosting'') ''port'') (JNum 5000)
                  in case toString (numberToString rt) authPort of
                       None \<Rightarrow> Inl TypeError
                     | Some authStr \<Rightarrow>
                        (case toString (numberToString rt) functionsPort of
                           None \<Rightarrow> Inl TypeError
                         | Some functionsStr \<Rightarrow>
                             Inr \<lparr> auth = \<lparr> host = h, port = authPort,
                                            url = ''http://'' @ h @ '':'' @ authStr \<rparr>,
                                   firestore = \<lparr> host = h, port = firestorePort \<rparr>,
                                   functions' = \<lparr> host = h, port = functionsPort,
                                                 baseUrl = ''http://'' @ h @ '':'' @ functionsStr
                                                           @ ''/'' @ pid @ ''/us-central1'' \<rparr>,
                                   storage = \<lparr> host = h, port = storagePort \<rparr>,
                                   hosting = \<lparr> host = h, port = hostingPort \<rparr> \<rparr>))))"

definition loadEmulatorConfig :: "runtime \<Rightarrow> AppConfig option \<Rightarrow> EmulatorConfig" where
  "loadEmulatorConfig rt this_config =
     (if \<not> isNode rt then getDefaultEmulatorConfig this_config
      else (case readEmulatorConfig rt this_config of
              Inr c \<Rightarrow> c
            | Inl error \<Rightarrow> getDefaultEmulatorConfig this_config))"

definition loadFirebaseConfig :: "runtime \<Rightarrow> AppConfig option \<Rightarrow> FirebaseConfig" where
  "loadFirebaseConfig rt this_config =
     (let config = \<lparr>
            projectId =
              (if present (process_env rt ''NEXT_PUBLIC_FIREBASE_PROJECT_ID'')
               then the (process_env rt ''NEXT_PUBLIC_FIREBASE_PROJECT_ID'')
               else if present (process_env rt ''FIREBASE_PROJECT_ID'')
               then the (process_env rt ''FIREBASE_PROJECT_ID'')
               else ''demo-project''),
            apiKey = process_env rt ''NEXT_PUBLIC_FIREBASE_API_KEY'',
            authDomain = process_env rt ''NEXT_PUBLIC_FIREBASE_AUTH_DOMAIN'',
            storageBucket = process_env rt ''NEXT_PUBLIC_FIREBASE_STORAGE_BUCKET'',
            messagingSenderId = process_env rt ''NEXT_PUBLIC_FIREBASE_MESSAGING_SENDER_ID'',
            appId = process_env rt ''NEXT_PUBLIC_FIREBASE_APP_ID'',
            emulators = None \<rparr>
      in if getEnvironment rt = Development
         then config \<lparr> emulators := Some (loadEmulatorConfig rt this_config) \<rparr>
         else config)"

definition getApiBaseUrl :: "runtime \<Rightarrow> AppConfig \<Rightarrow> ConfigurationError + string" where
  "getApiBaseUrl rt config =
     (if present (process_env rt ''NEXT_PUBLIC_API_URL'')
      then Inr (the (process_env rt ''NEXT_PUBLIC_API_URL''))
      else (case emulators (firebase config) of
              Some ems \<Rightarrow> Inr (baseUrl (functions' ems))
            | None \<Rightarrow>
                if present (process_env rt ''NEXT_PUBLIC_FIREBASE_FUNCTIONS_URL'')
                then Inr (the (process_env rt ''NEXT_PUBLIC_FIREBASE_FUNCTIONS_URL''))
                else Inl (ConfigurationError
                            ''API base URL not configured''
                            (Some ''No NEXT_PUBLIC_API_URL or Firebase Functions URL found'')
                            (Some ''Set NEXT_PUBLIC_API_URL in .env.local or ensure Firebase emulators are configured''))))"

definition validate :: "AppConfig \<Rightarrow> ValidationResult" where
  "validate config =
     (let errs =
            (if projectId (firebase config) = [] then [''Firebase projectId is required''] else [])
          @ (if environment config = Development \<and> emulators (firebase config) = None
             then [''Emulator configuration missing in development mode''] else [])
          @ (if environment config = Production
             then (if \<not> present (apiKey (firebase config))
                   then [''Firebase apiKey required for production''] else [])
                @ (if \<not> present (authDomain (firebase config))
                   then [''Firebase authDomain required for production''] else [])
             else [])
      in \<lparr> valid = (length errs = 0), errors = (if length errs > 0 then Some errs else None) \<rparr>)"

text \<open>The accessors of an object; each reads \<^verbatim>\<open>this.config\<close>, except
  \<^verbatim>\<open>getEnvironment\<close> above, which reads \<^verbatim>\<open>process.env\<close>.\<close>

definition getFirebaseConfig :: "AppConfig \<Rightarrow> FirebaseConfig" where
  "getFirebaseConfig config = firebase config"

definition getEmulatorConfig :: "AppConfig \<Rightarrow> EmulatorConfig option" where
  "getEmulatorConfig config = emulators (firebase config)"

definition getApiUrl :: "AppConfig \<Rightarrow> string" where
  "getApiUrl config = apiBaseUrl (api config)"

definition isEmulatorMode :: "AppConfig \<Rightarrow> bool" where
  "isEmulatorMode config = (environment config = Development \<and> emulators (firebase config) \<noteq> None)"

definition isProduction :: "AppConfig \<Rightarrow> bool" where
  "isProduction config = (environment config = Production)"

text \<open>
  \<^verbatim>\<open>logConfiguration\<close>: the lines it writes to the console, or the TypeError thrown when
  the firestore port, interpolated into a template literal, cannot be converted to a string.
\<close>

fun environment_name :: "Environment \<Rightarrow> string" where
  "environment_name Development = ''development''"
| "environment_name Staging = ''staging''"
| "environment_name Production = ''production''"

definition logConfiguration :: "runtime \<Rightarrow> AppConfig \<Rightarrow> js_exception + string list" where
  "logConfiguration rt config =
     (let summary =
            [''[ConfigService] Configuration Summary:'',
             ''  Environment: '' @ environment_name (environment config),
             ''  Project ID: '' @ projectId (firebase config),
             ''  Emulator Mode: '' @ (if isEmulatorMode config then ''true'' else ''false''),
             ''  API Base URL: '' @ apiBaseUrl (api config)]
      in case emulators (firebase config) of
           None \<Rightarrow> Inr summary
         | Some ems \<Rightarrow>
             if \<not> isEmulatorMode config then Inr summary
             else (case toString (numberToString rt) (port (firestore ems)) of
                     None \<Rightarrow> Inl TypeError
                   | Some firestorePort \<Rightarrow>
                       Inr (summary @
                            [''  Emulator Endpoints:'',
                             ''    Auth: '' @ url (auth ems),
                             ''    Firestore: http://'' @ host (firestore ems) @ '':'' @ firestorePort,
                             ''    Functions: '' @ baseUrl (functions' ems)])))"

text \<open>What a call of the constructor can throw: a \<^verbatim>\<open>ConfigurationError\<close> of its own, or an
  exception of the language that nothing catches.\<close>

datatype thrown = ConfigurationErr ConfigurationError | JsException js_exception

text \<open>
  The constructor. \<^verbatim>\<open>this.config\<close> is assigned only after the object literal has been
  evaluated, so \<^verbatim>\<open>loadFirebaseConfig\<close> runs while \<^verbatim>\<open>this.config\<close> is still undefined.
  Inl is what the constructor throws; Inr is the \<^verbatim>\<open>config\<close> of the new object. The last
  statement, \<^verbatim>\<open>this.logConfiguration()\<close>, is outside every \<^verbatim>\<open>try\<close>; the lines it writes
  go to the console, which is not part of the state.
\<close>

definition new_ConfigService :: "runtime \<Rightarrow> thrown + AppConfig" where
  "new_ConfigService rt =
     (let config = \<lparr> environment = getEnvironment rt,
                     firebase = loadFirebaseConfig rt None,
                     api = \<lparr> apiBaseUrl = [] \<rparr> \<rparr>
      in case getApiBaseUrl rt config of
           Inl e \<Rightarrow> Inl (ConfigurationErr e)
         | Inr u \<Rightarrow>
            (let config' = config \<lparr> api := \<lparr> apiBaseUrl = u \<rparr> \<rparr>;
                 validation = validate config'
             in if \<not> valid validation
                then Inl (ConfigurationErr (ConfigurationError
                            ''Configuration validation failed''
                            (map_option (join [CHR 0x0A]) (errors validation))
                            (Some ''Check your .env.local file and ensure Firebase emulators are running'')))
                else (case logConfiguration rt config' of
                        Inl e \<Rightarrow> Inl (JsException e)
                      | Inr lines \<Rightarrow> Inr config')))"

text \<open>
  The static field \<^verbatim>\<open>ConfigService.instance\<close> is the state; an object is its \<^verbatim>\<open>config\<close>.
  \<^verbatim>\<open>getInstance\<close> returns the thrown error or the object, and the new state.
\<close>

type_synonym singleton = "AppConfig option"

definition getInstance :: "runtime \<Rightarrow> singleton \<Rightarrow> (thrown + AppConfig) \<times> singleton" where
  "getInstance rt inst =
     (case inst of
        Some c \<Rightarrow> (Inr c, inst)
      | None \<Rightarrow>
         (case new_ConfigService rt of
            Inl e \<Rightarrow> (Inl e, inst)
          | Inr c \<Rightarrow> (Inr c, Some c)))"

definition resetInstance :: "singleton \<Rightarrow> singleton" where
  "resetInstance inst = None"

section \<open>Sample runtimes\<close>

text \<open>Decimal digits of a natural number: the host's conversion on the port numbers used below.\<close>

fun decimal :: "nat \<Rightarrow> string" where
  "decimal n = (if n < 10 then [''0123456789'' ! n]
                else decimal (n div 10) @ [''0123456789'' ! (n mod 10)])"

declare decimal.simps [simp del]

text \<open>A Node.js runtime with the given environment variables and outcome for the file.
  Its number conversion writes the integer part in decimal, which is the host's result on
  the natural numbers below \<open>10\<^sup>2\<^sup>1\<close>, the only numbers the examples convert.\<close>

definition node_runtime :: "(string \<times> string) list \<Rightarrow> file_outcome \<Rightarrow> runtime" where
  "node_runtime vars file =
     \<lparr> isNode = True, process_env = map_of vars, firebase_json = file,
       numberToString = (\<lambda>r. decimal (nat \<lfloor>r\<rfloor>)) \<rparr>"

text \<open>Environment variables of a production deployment that passes validation.\<close>

definition production_vars :: "(string \<times> string) list" where
  "production_vars =
     [(''NODE_ENV'', ''production''),
      (''NEXT_PUBLIC_FIREBASE_API_KEY'', ''key''),
      (''NEXT_PUBLIC_FIREBASE_AUTH_DOMAIN'', ''my-app.firebaseapp.com''),
      (''NEXT_PUBLIC_FIREBASE_FUNCTIONS_URL'', ''https://us-central1-my-app.cloudfunctions.net'')]"

text \<open>The five services, their keys in the file, their ports in an \<^verbatim>\<open>EmulatorConfig\<close>
  and the literals of \<^verbatim>\<open>getDefaultEmulatorConfig\<close>.\<close>

datatype service = Auth | Firestore | Functions | Storage | Hosting

fun service_key :: "service \<Rightarrow> string" where
  "service_key Auth = ''auth''"
| "service_key Firestore = ''firestore''"
| "service_key Functions = ''functions''"
| "service_key Storage = ''storage''"
| "service_key Hosting = ''hosting''"

fun service_port :: "service \<Rightarrow> EmulatorConfig \<Rightarrow> json" where
  "service_port Auth c = port (auth c)"
| "service_port Firestore c = port (firestore c)"
| "service_port Functions c = port (functions' c)"
| "service_port Storage c = port (storage c)"
| "service_port Hosting c = port (hosting c)"

fun default_port :: "service \<Rightarrow> json" where
  "default_port Auth = JNum 9099"
| "default_port Firestore = JNum 8080"
| "default_port Functions = JNum 5001"
| "default_port Storage = JNum 9199"
| "default_port Hosting = JNum 5000"

text \<open>The port expression \<^verbatim>\<open>emulators.<service>?.port || <default>\<close> of \<^verbatim>\<open>loadEmulatorConfig\<close>.\<close>

definition resolved_port :: "json \<Rightarrow> service \<Rightarrow> json" where
  "resolved_port ems s = or_default (opt_prop (get_prop ems (service_key s)) ''port'') (default_port s)"

text \<open>A \<^verbatim>\<open>firebase.json\<close> whose \<^verbatim>\<open>emulators\<close> section gives a port for one service only.\<close>

definition file_with_port :: "service \<Rightarrow> json \<Rightarrow> json" where
  "file_with_port s p = JObj [(''emulators'', JObj [(service_key s, JObj [(''port'', p)])])]"

text \<open>A settings object with the given environment, credentials and local endpoints.\<close>

definition sample_config ::
  "Environment \<Rightarrow> string option \<Rightarrow> string option \<Rightarrow> EmulatorConfig option \<Rightarrow> AppConfig" where
  "sample_config e key domain ems =
     \<lparr> environment = e,
       firebase = \<lparr> projectId = ''demo-project'', apiKey = key, authDomain = domain,
                    storageBucket = None, messagingSenderId = None, appId = None,
                    emulators = ems \<rparr>,
       api = \<lparr> apiBaseUrl = [] \<rparr> \<rparr>"

section \<open>Facts about the constructor\<close>

lemma projectId_loadFirebaseConfig: "projectId (loadFirebaseConfig rt tc) \<noteq> []"
  by (simp add: loadFirebaseConfig_def Let_def present_def split: option.splits)

lemma emulators_loadFirebaseConfig:
  "emulators (loadFirebaseConfig rt tc) =
     (if getEnvironment rt = Development then Some (loadEmulatorConfig rt tc) else None)"
  by (simp add: loadFirebaseConfig_def Let_def)

lemma credentials_loadFirebaseConfig:
  "apiKey (loadFirebaseConfig rt tc) = process_env rt ''NEXT_PUBLIC_FIREBASE_API_KEY''"
  "authDomain (loadFirebaseConfig rt tc) = process_env rt ''NEXT_PUBLIC_FIREBASE_AUTH_DOMAIN''"
  by (simp_all add: loadFirebaseConfig_def Let_def)

lemma getApiBaseUrl_firebase:
  "firebase c = firebase c' \<Longrightarrow> getApiBaseUrl rt c = getApiBaseUrl rt c'"
  by (simp add: getApiBaseUrl_def)

lemma new_ConfigService_Inr:
  assumes "new_ConfigService rt = Inr c"
  shows "environment c = getEnvironment rt"
    and "firebase c = loadFirebaseConfig rt None"
    and "getApiBaseUrl rt c = Inr (apiBaseUrl (api c))"
    and "valid (validate c)"
    and "\<exists>lines. logConfiguration rt c = Inr lines"
proof -
  let ?c0 = "\<lparr> environment = getEnvironment rt, firebase = loadFirebaseConfig rt None,
                 api = \<lparr> apiBaseUrl = [] \<rparr> \<rparr>"
  from assms obtain u where u: "getApiBaseUrl rt ?c0 = Inr u"
    and c: "c = ?c0 \<lparr> api := \<lparr> apiBaseUrl = u \<rparr> \<rparr>"
    and v: "valid (validate (?c0 \<lparr> api := \<lparr> apiBaseUrl = u \<rparr> \<rparr>))"
    and l: "\<exists>lines. logConfiguration rt (?c0 \<lparr> api := \<lparr> apiBaseUrl = u \<rparr> \<rparr>) = Inr lines"
    by (auto simp: new_ConfigService_def Let_def split: sum.splits if_splits)
  show "\<exists>lines. logConfiguration rt c = Inr lines" using l by (simp add: c)
  show "environment c = getEnvironment rt" by (simp add: c)
  show "firebase c = loadFirebaseConfig rt None" by (simp add: c)
  have "getApiBaseUrl rt c = getApiBaseUrl rt ?c0"
    by (rule getApiBaseUrl_firebase) (simp add: c)
  then show "getApiBaseUrl rt c = Inr (apiBaseUrl (api c))" by (simp add: u c)
  show "valid (validate c)" using v by (simp add: c)
qed

lemma logConfiguration_Inl:
  "logConfiguration rt c = Inl e \<longleftrightarrow>
     e = TypeError \<and> environment c = Development \<and>
     (\<exists>ems. emulators (firebase c) = Some ems \<and>
            toString (numberToString rt) (port (firestore ems)) = None)"
  by (auto simp: logConfiguration_def isEmulatorMode_def Let_def split: option.splits)

lemma new_ConfigService_Inl:
  assumes "new_ConfigService rt = Inl e"
  shows "(\<exists>ce. e = ConfigurationErr ce \<and>
               (message ce = ''Configuration validation failed'' \<or>
                message ce = ''API base URL not configured''))
       \<or> (e = JsException TypeError \<and> getEnvironment rt = Development \<and>
          toString (numberToString rt) (port (firestore (loadEmulatorConfig rt None))) = None)"
proof -
  let ?c0 = "\<lparr> environment = getEnvironment rt, firebase = loadFirebaseConfig rt None,
                 api = \<lparr> apiBaseUrl = [] \<rparr> \<rparr>"
  show ?thesis
  proof (cases "getApiBaseUrl rt ?c0")
    case (Inl ce)
    then have "message ce = ''API base URL not configured''"
      by (auto simp: getApiBaseUrl_def split: if_splits option.splits)
    with Inl assms show ?thesis by (auto simp: new_ConfigService_def Let_def)
  next
    case (Inr u)
    let ?c = "?c0 \<lparr> api := \<lparr> apiBaseUrl = u \<rparr> \<rparr>"
    show ?thesis
    proof (cases "valid (validate ?c)")
      case False
      with Inr assms show ?thesis by (auto simp: new_ConfigService_def Let_def)
    next
      case True
      with Inr assms obtain x where x: "logConfiguration rt ?c = Inl x" and e: "e = JsException x"
        by (auto simp: new_ConfigService_def Let_def split: sum.splits)
      from x [unfolded logConfiguration_Inl] e show ?thesis
        by (auto simp: emulators_loadFirebaseConfig split: if_splits)
    qed
  qed
qed

lemma new_ConfigService_development:
  assumes "getEnvironment rt = Development"
    and "toString (numberToString rt) (port (firestore (loadEmulatorConfig rt None))) \<noteq> None"
  shows "\<exists>c. new_ConfigService rt = Inr c"
proof -
  let ?c0 = "\<lparr> environment = getEnvironment rt, firebase = loadFirebaseConfig rt None,
                 api = \<lparr> apiBaseUrl = [] \<rparr> \<rparr>"
  have em: "emulators (loadFirebaseConfig rt None) = Some (loadEmulatorConfig rt None)"
    using assms(1) by (simp add: emulators_loadFirebaseConfig)
  have "\<exists>u. getApiBaseUrl rt ?c0 = Inr u"
    by (cases "present (process_env rt ''NEXT_PUBLIC_API_URL'')") (simp_all add: getApiBaseUrl_def em)
  then obtain u where u: "getApiBaseUrl rt ?c0 = Inr u" ..
  let ?c = "?c0 \<lparr> api := \<lparr> apiBaseUrl = u \<rparr> \<rparr>"
  have v: "valid (validate ?c)"
    using assms(1) by (simp add: validate_def Let_def em projectId_loadFirebaseConfig)
  have "\<not> (\<exists>e. logConfiguration rt ?c = Inl e)"
    using assms(2) by (simp add: logConfiguration_Inl em)
  then obtain lines where "logConfiguration rt ?c = Inr lines"
    by (cases "logConfiguration rt ?c") auto
  then show ?thesis using u v by (simp add: new_ConfigService_def Let_def)
qed

lemma new_ConfigService_development_throws:
  assumes "getEnvironment rt = Development"
    and "toString (numberToString rt) (port (firestore (loadEmulatorConfig rt None))) = None"
  shows "new_ConfigService rt = Inl (JsException TypeError)"
proof -
  let ?c0 = "\<lparr> environment = getEnvironment rt, firebase = loadFirebaseConfig rt None,
                 api = \<lparr> apiBaseUrl = [] \<rparr> \<rparr>"
  have em: "emulators (loadFirebaseConfig rt None) = Some (loadEmulatorConfig rt None)"
    using assms(1) by (simp add: emulators_loadFirebaseConfig)
  have "\<exists>u. getApiBaseUrl rt ?c0 = Inr u"
    by (cases "present (process_env rt ''NEXT_PUBLIC_API_URL'')") (simp_all add: getApiBaseUrl_def em)
  then obtain u where u: "getApiBaseUrl rt ?c0 = Inr u" ..
  let ?c = "?c0 \<lparr> api := \<lparr> apiBaseUrl = u \<rparr> \<rparr>"
  have v: "valid (validate ?c)"
    using assms(1) by (simp add: validate_def Let_def em projectId_loadFirebaseConfig)
  have "logConfiguration rt ?c = Inl TypeError"
    using assms by (simp add: logConfiguration_Inl em)
  then show ?thesis using u v by (simp add: new_ConfigService_def Let_def)
qed

text \<open>With the built-in defaults the constructor returns an object in development.\<close>

lemma new_ConfigService_development_default:
  assumes "getEnvironment rt = Development"
    and "loadEmulatorConfig rt None = getDefaultEmulatorConfig None"
  shows "\<exists>c. new_ConfigService rt = Inr c"
  by (rule new_ConfigService_development [OF assms(1)])
     (simp add: assms(2) getDefaultEmulatorConfig_def Let_def)

section \<open>Facts about loading the local endpoints\<close>

lemma service_port_default: "service_port s (getDefaultEmulatorConfig tc) = default_port s"
  by (cases s) (simp_all add: getDefaultEmulatorConfig_def Let_def)

lemma readEmulatorConfig_Parsed:
  assumes "firebase_json rt = Parsed fj" and "get_prop fj ''emulators'' = Some em" and "truthy em"
  shows "readEmulatorConfig rt tc =
     (case toString (numberToString rt) (resolved_port em Auth) of
        None \<Rightarrow> Inl TypeError
      | Some a \<Rightarrow>
         (case toString (numberToString rt) (resolved_port em Functions) of
            None \<Rightarrow> Inl TypeError
          | Some f \<Rightarrow>
             Inr \<lparr> auth = \<lparr> host = ''localhost'', port = resolved_port em Auth,
                            url = ''http://localhost:'' @ a \<rparr>,
                   firestore = \<lparr> host = ''localhost'', port = resolved_port em Firestore \<rparr>,
                   functions' = \<lparr> host = ''localhost'', port = resolved_port em Functions,
                                 baseUrl = ''http://localhost:'' @ f @ ''/'' @ config_projectId tc
                                           @ ''/us-central1'' \<rparr>,
                   storage = \<lparr> host = ''localhost'', port = resolved_port em Storage \<rparr>,
                   hosting = \<lparr> host = ''localhost'', port = resolved_port em Hosting \<rparr> \<rparr>))"
proof -
  from assms(2) have "fj \<noteq> JNull" by auto
  with assms show ?thesis
    by (simp add: readEmulatorConfig_def resolved_port_def Let_def split: option.splits)
qed

lemma loadEmulatorConfig_Parsed_port:
  assumes "isNode rt" and "firebase_json rt = Parsed fj"
    and "get_prop fj ''emulators'' = Some em" and "truthy em"
  shows "service_port s (loadEmulatorConfig rt tc) =
     (if toString (numberToString rt) (resolved_port em Auth) = None \<or>
         toString (numberToString rt) (resolved_port em Functions) = None
      then default_port s else resolved_port em s)"
proof (cases "toString (numberToString rt) (resolved_port em Auth)")
  case None
  then show ?thesis
    using assms(1) by (simp add: loadEmulatorConfig_def readEmulatorConfig_Parsed [OF assms(2-4)]
        service_port_default)
next
  case a: (Some a)
  show ?thesis
  proof (cases "toString (numberToString rt) (resolved_port em Functions)")
    case None
    then show ?thesis
      using assms(1) a by (simp add: loadEmulatorConfig_def readEmulatorConfig_Parsed [OF assms(2-4)]
          service_port_default)
  next
    case (Some f)
    then show ?thesis
      using assms(1) a
      by (cases s) (simp_all add: loadEmulatorConfig_def readEmulatorConfig_Parsed [OF assms(2-4)])
  qed
qed

lemma port_present_truthy:
  assumes "opt_prop (get_prop em k) k' = Some p"
  shows "truthy em"
  using assms by (cases em) (simp_all add: opt_prop_def)

lemma loadEmulatorConfig_default:
  assumes "\<not> isNode rt \<or> firebase_json rt = NotFound \<or> (\<exists>e. readEmulatorConfig rt tc = Inl e)"
  shows "loadEmulatorConfig rt tc = getDefaultEmulatorConfig tc"
  using assms by (auto simp: loadEmulatorConfig_def readEmulatorConfig_def)

text \<open>Every file state that gives no usable \<^verbatim>\<open>emulators\<close> section, and every exception
  of the \<^verbatim>\<open>try\<close> block, ends in the built-in defaults.\<close>

lemma loadEmulatorConfig_falls_back:
  "(firebase_json rt = NotFound \<or> firebase_json rt = ReadFailure \<or> firebase_json rt = Malformed \<or>
    firebase_json rt = Parsed JNull \<or>
    (firebase_json rt = Parsed fj \<and> (get_prop fj ''emulators'' = None \<or>
                                      (get_prop fj ''emulators'' = Some em \<and> \<not> truthy em))) \<longrightarrow>
      loadEmulatorConfig rt tc = getDefaultEmulatorConfig tc)
 \<and> (readEmulatorConfig rt tc = Inl e \<longrightarrow> loadEmulatorConfig rt tc = getDefaultEmulatorConfig tc)"
  by (auto simp: loadEmulatorConfig_def readEmulatorConfig_def)

lemma new_ConfigService_development_no_file:
  assumes "getEnvironment rt = Development"
    and "firebase_json rt = NotFound \<or> firebase_json rt = ReadFailure \<or> firebase_json rt = Malformed"
  shows "\<exists>c. new_ConfigService rt = Inr c"
proof -
  from assms(2) have "loadEmulatorConfig rt None = getDefaultEmulatorConfig None"
    by (auto simp: loadEmulatorConfig_def readEmulatorConfig_def)
  with assms(1) show ?thesis by (rule new_ConfigService_development_default)
qed

lemma getEmulatorConfig_development:
  assumes "new_ConfigService rt = Inr c" and "getEnvironment rt = Development"
  shows "getEmulatorConfig c = Some (loadEmulatorConfig rt None)"
  using new_ConfigService_Inr(2) [OF assms(1)] assms(2)
  by (simp add: getEmulatorConfig_def emulators_loadFirebaseConfig)

text \<open>Whatever the project id and the file, the functions \<^verbatim>\<open>baseUrl\<close> built during
  construction names the placeholder project.\<close>

lemma baseUrl_default: "baseUrl (functions' (getDefaultEmulatorConfig None)) = ''http://localhost:'' @ ''5001'' @ ''/demo-project/us-central1''"
  by (simp add: getDefaultEmulatorConfig_def config_projectId_def Let_def)

lemma baseUrl_placeholder:
  "\<exists>p. baseUrl (functions' (loadEmulatorConfig rt None)) =
        ''http://localhost:'' @ p @ ''/demo-project/us-central1''"
proof (cases "isNode rt \<and> (\<exists>c. readEmulatorConfig rt None = Inr c \<and> c \<noteq> getDefaultEmulatorConfig None)")
  case False
  then have "loadEmulatorConfig rt None = getDefaultEmulatorConfig None"
    by (auto simp: loadEmulatorConfig_def split: sum.splits)
  then show ?thesis using baseUrl_default by metis
next
  case True
  then obtain c where c: "readEmulatorConfig rt None = Inr c" "c \<noteq> getDefaultEmulatorConfig None"
    and l: "loadEmulatorConfig rt None = c"
    by (auto simp: loadEmulatorConfig_def)
  from c obtain f where "baseUrl (functions' c) = ''http://localhost:'' @ f @ ''/demo-project/us-central1''"
    by (auto simp: readEmulatorConfig_def config_projectId_def Let_def
        split: file_outcome.splits option.splits if_splits)
  then show ?thesis by (auto simp: l)
qed

lemma new_ConfigService_baseUrl_placeholder:
  assumes "new_ConfigService rt = Inr c" and "getEmulatorConfig c = Some ems"
  shows "\<exists>p. baseUrl (functions' ems) = ''http://localhost:'' @ p @ ''/demo-project/us-central1''"
proof -
  from assms have "ems = loadEmulatorConfig rt None"
    using new_ConfigService_Inr(2) [OF assms(1)]
    by (simp add: getEmulatorConfig_def emulators_loadFirebaseConfig split: if_splits)
  then show ?thesis using baseUrl_placeholder [of rt] by simp
qed

section \<open>The claims\<close>

subsection \<open>The project id in the convenience URL\<close>

text \<open>
  C1. In development the functions \<^verbatim>\<open>baseUrl\<close> is meant to carry the resolved project id.
  The constructor calls \<^verbatim>\<open>loadFirebaseConfig\<close> before \<^verbatim>\<open>this.config\<close> is assigned, so
  \<^verbatim>\<open>this.config?.firebase?.projectId\<close> is undefined there and the placeholder is used:
  with \<^verbatim>\<open>NEXT_PUBLIC_FIREBASE_PROJECT_ID=my-app\<close> and no \<^verbatim>\<open>firebase.json\<close>, the object has
  \<^verbatim>\<open>projectId\<close> \<^verbatim>\<open>my-app\<close> but its functions \<^verbatim>\<open>baseUrl\<close> and its API base URL name
  \<^verbatim>\<open>demo-project\<close>.
\<close>

theorem projectId_override_not_in_baseUrl:
  "new_ConfigService (node_runtime [(''NEXT_PUBLIC_FIREBASE_PROJECT_ID'', ''my-app'')] NotFound) =
   Inr \<lparr> environment = Development,
         firebase = \<lparr> projectId = ''my-app'', apiKey = None, authDomain = None,
                      storageBucket = None, messagingSenderId = None, appId = None,
                      emulators = Some
                        \<lparr> auth = \<lparr> host = ''localhost'', port = JNum 9099,
                                   url = ''http://localhost:9099'' \<rparr>,
                          firestore = \<lparr> host = ''localhost'', port = JNum 8080 \<rparr>,
                          functions' = \<lparr> host = ''localhost'', port = JNum 5001,
                                        baseUrl = ''http://localhost:5001/demo-project/us-central1'' \<rparr>,
                          storage = \<lparr> host = ''localhost'', port = JNum 9199 \<rparr>,
                          hosting = \<lparr> host = ''localhost'', port = JNum 5000 \<rparr> \<rparr> \<rparr>,
         api = \<lparr> apiBaseUrl = ''http://localhost:5001/demo-project/us-central1'' \<rparr> \<rparr>"
  by (simp add: new_ConfigService_def logConfiguration_def isEmulatorMode_def node_runtime_def getEnvironment_def loadFirebaseConfig_def
      loadEmulatorConfig_def readEmulatorConfig_def getDefaultEmulatorConfig_def
      config_projectId_def getApiBaseUrl_def validate_def present_def or_else_def Let_def)

subsection \<open>The singleton\<close>

text \<open>
  C2. Construction is atomic with respect to the singleton: when the constructor throws
  (validation failure or unresolvable API base URL), \<^verbatim>\<open>getInstance\<close> propagates the error
  and leaves \<^verbatim>\<open>ConfigService.instance\<close> unset, and the next \<^verbatim>\<open>getInstance\<close>, in whatever
  runtime it then finds, returns exactly what a fresh run of the constructor gives.
\<close>

theorem failed_construction_leaves_singleton_unset:
  assumes "new_ConfigService rt = Inl e"
  shows "getInstance rt None = (Inl e, None) \<and>
         fst (getInstance rt' (snd (getInstance rt None))) = new_ConfigService rt'"
  using assms by (simp add: getInstance_def split: sum.splits)

theorem failed_construction_leaves_singleton_unset_witness:
  "getInstance (node_runtime [(''NODE_ENV'', ''production''), (''NEXT_PUBLIC_API_URL'', ''https://api.example.com'')] NotFound) None
     = (Inl (ConfigurationErr (ConfigurationError ''Configuration validation failed''
          (Some (''Firebase apiKey required for production'' @ [CHR 0x0A] @ ''Firebase authDomain required for production''))
          (Some ''Check your .env.local file and ensure Firebase emulators are running''))), None)
   \<and> fst (getInstance (node_runtime [] NotFound)
          (snd (getInstance (node_runtime [(''NODE_ENV'', ''production''), (''NEXT_PUBLIC_API_URL'', ''https://api.example.com'')] NotFound) None)))
     = new_ConfigService (node_runtime [] NotFound)
   \<and> \<not> isl (new_ConfigService (node_runtime [] NotFound))"
proof -
  let ?rt = "node_runtime [(''NODE_ENV'', ''production''), (''NEXT_PUBLIC_API_URL'', ''https://api.example.com'')] NotFound"
  have h: "new_ConfigService ?rt = Inl (ConfigurationErr (ConfigurationError ''Configuration validation failed''
          (Some (''Firebase apiKey required for production'' @ [CHR 0x0A] @ ''Firebase authDomain required for production''))
          (Some ''Check your .env.local file and ensure Firebase emulators are running'')))"
    by (simp add: new_ConfigService_def logConfiguration_def isEmulatorMode_def node_runtime_def getEnvironment_def loadFirebaseConfig_def
        getApiBaseUrl_def validate_def present_def or_else_def Let_def)
  have ok: "getEnvironment (node_runtime [] NotFound) = Development"
    by (simp add: node_runtime_def getEnvironment_def present_def or_else_def)
  have nf: "firebase_json (node_runtime [] NotFound) = NotFound \<or>
            firebase_json (node_runtime [] NotFound) = ReadFailure \<or>
            firebase_json (node_runtime [] NotFound) = Malformed"
    by (simp add: node_runtime_def)
  from new_ConfigService_development_no_file [OF ok nf]
  have "\<not> isl (new_ConfigService (node_runtime [] NotFound))"
    by auto
  then show ?thesis
    using failed_construction_leaves_singleton_unset [OF h, of "node_runtime [] NotFound"]
    by blast
qed

text \<open>
  C3. \<^verbatim>\<open>getInstance\<close> is idempotent: when a call returns an object, the next call, with
  no \<^verbatim>\<open>resetInstance\<close> in between and in any runtime, returns the same object and leaves
  the singleton as it is.
\<close>

theorem getInstance_idempotent:
  assumes "getInstance rt inst = (Inr c, inst')"
  shows "getInstance rt' inst' = (Inr c, inst')"
  using assms by (auto simp: getInstance_def split: option.splits sum.splits)

theorem getInstance_idempotent_witness:
  "getInstance (node_runtime [(''NODE_ENV'', ''production'')] Malformed)
     (snd (getInstance (node_runtime [] NotFound) None))
   = getInstance (node_runtime [] NotFound) None
   \<and> \<not> isl (fst (getInstance (node_runtime [] NotFound) None))"
proof -
  have ok: "getEnvironment (node_runtime [] NotFound) = Development"
    by (simp add: node_runtime_def getEnvironment_def present_def or_else_def)
  have nf: "firebase_json (node_runtime [] NotFound) = NotFound \<or>
            firebase_json (node_runtime [] NotFound) = ReadFailure \<or>
            firebase_json (node_runtime [] NotFound) = Malformed"
    by (simp add: node_runtime_def)
  from new_ConfigService_development_no_file [OF ok nf]
  obtain c where c: "new_ConfigService (node_runtime [] NotFound) = Inr c" ..
  have h: "getInstance (node_runtime [] NotFound) None = (Inr c, Some c)"
    by (simp add: getInstance_def c)
  from getInstance_idempotent [OF h, of "node_runtime [(''NODE_ENV'', ''production'')] Malformed"]
  show ?thesis by (simp add: h)
qed

subsection \<open>The API base URL\<close>

text \<open>
  C4. \<^verbatim>\<open>getApiBaseUrl\<close> follows a strict priority: \<^verbatim>\<open>NEXT_PUBLIC_API_URL\<close> when it is
  present (set and not empty); otherwise the functions \<^verbatim>\<open>baseUrl\<close> of the local endpoints
  when there are any; otherwise \<^verbatim>\<open>NEXT_PUBLIC_FIREBASE_FUNCTIONS_URL\<close> when it is present.
  The API base URL of a constructed object is the value so computed, and when all three
  sources are absent the constructor throws the \<^verbatim>\<open>ConfigurationError\<close>
  \<^verbatim>\<open>API base URL not configured\<close> and returns no object.
\<close>

theorem apiBaseUrl_priority:
  "(process_env rt ''NEXT_PUBLIC_API_URL'' = Some u \<and> u \<noteq> [] \<longrightarrow>
      getApiBaseUrl rt config = Inr u)
 \<and> (\<not> present (process_env rt ''NEXT_PUBLIC_API_URL'') \<and> emulators (firebase config) = Some ems \<longrightarrow>
      getApiBaseUrl rt config = Inr (baseUrl (functions' ems)))
 \<and> (\<not> present (process_env rt ''NEXT_PUBLIC_API_URL'') \<and> emulators (firebase config) = None \<and>
    process_env rt ''NEXT_PUBLIC_FIREBASE_FUNCTIONS_URL'' = Some f \<and> f \<noteq> [] \<longrightarrow>
      getApiBaseUrl rt config = Inr f)
 \<and> (new_ConfigService rt = Inr c \<longrightarrow> getApiBaseUrl rt c = Inr (apiBaseUrl (api c)))
 \<and> (\<not> present (process_env rt ''NEXT_PUBLIC_API_URL'') \<and>
    emulators (loadFirebaseConfig rt None) = None \<and>
    \<not> present (process_env rt ''NEXT_PUBLIC_FIREBASE_FUNCTIONS_URL'') \<longrightarrow>
      new_ConfigService rt = Inl (ConfigurationErr (ConfigurationError
         ''API base URL not configured''
         (Some ''No NEXT_PUBLIC_API_URL or Firebase Functions URL found'')
         (Some ''Set NEXT_PUBLIC_API_URL in .env.local or ensure Firebase emulators are configured''))))"
proof (intro conjI impI)
  assume "process_env rt ''NEXT_PUBLIC_API_URL'' = Some u \<and> u \<noteq> []"
  then show "getApiBaseUrl rt config = Inr u"
    by (simp add: getApiBaseUrl_def present_def)
next
  assume "\<not> present (process_env rt ''NEXT_PUBLIC_API_URL'') \<and> emulators (firebase config) = Some ems"
  then show "getApiBaseUrl rt config = Inr (baseUrl (functions' ems))"
    by (simp add: getApiBaseUrl_def)
next
  assume "\<not> present (process_env rt ''NEXT_PUBLIC_API_URL'') \<and> emulators (firebase config) = None \<and>
    process_env rt ''NEXT_PUBLIC_FIREBASE_FUNCTIONS_URL'' = Some f \<and> f \<noteq> []"
  then show "getApiBaseUrl rt config = Inr f"
    by (simp add: getApiBaseUrl_def present_def)
next
  assume "new_ConfigService rt = Inr c"
  then show "getApiBaseUrl rt c = Inr (apiBaseUrl (api c))"
    by (rule new_ConfigService_Inr(3))
next
  assume "\<not> present (process_env rt ''NEXT_PUBLIC_API_URL'') \<and>
    emulators (loadFirebaseConfig rt None) = None \<and>
    \<not> present (process_env rt ''NEXT_PUBLIC_FIREBASE_FUNCTIONS_URL'')"
  then show "new_ConfigService rt = Inl (ConfigurationErr (ConfigurationError
         ''API base URL not configured''
         (Some ''No NEXT_PUBLIC_API_URL or Firebase Functions URL found'')
         (Some ''Set NEXT_PUBLIC_API_URL in .env.local or ensure Firebase emulators are configured'')))"
    by (simp add: new_ConfigService_def getApiBaseUrl_def Let_def)
qed

theorem apiBaseUrl_priority_witness:
  "getApiBaseUrl (node_runtime [(''NEXT_PUBLIC_API_URL'', ''https://api.example.com''),
                                (''NEXT_PUBLIC_FIREBASE_FUNCTIONS_URL'', ''https://fn.example.com'')] NotFound)
                 (sample_config Development None None (Some (getDefaultEmulatorConfig None)))
     = Inr ''https://api.example.com''
 \<and> getApiBaseUrl (node_runtime [(''NEXT_PUBLIC_FIREBASE_FUNCTIONS_URL'', ''https://fn.example.com'')] NotFound)
                 (sample_config Development None None (Some (getDefaultEmulatorConfig None)))
     = Inr ''http://localhost:5001/demo-project/us-central1''
 \<and> getApiBaseUrl (node_runtime [(''NEXT_PUBLIC_FIREBASE_FUNCTIONS_URL'', ''https://fn.example.com'')] NotFound)
                 (sample_config Production None None None)
     = Inr ''https://fn.example.com''
 \<and> apiBaseUrl (api (projr (new_ConfigService (node_runtime production_vars NotFound))))
     = ''https://us-central1-my-app.cloudfunctions.net''
 \<and> new_ConfigService (node_runtime [(''NODE_ENV'', ''production'')] NotFound)
     = Inl (ConfigurationErr (ConfigurationError
         ''API base URL not configured''
         (Some ''No NEXT_PUBLIC_API_URL or Firebase Functions URL found'')
         (Some ''Set NEXT_PUBLIC_API_URL in .env.local or ensure Firebase emulators are configured'')))"
proof -
  let ?rtA = "node_runtime [(''NEXT_PUBLIC_API_URL'', ''https://api.example.com''),
                            (''NEXT_PUBLIC_FIREBASE_FUNCTIONS_URL'', ''https://fn.example.com'')] NotFound"
  let ?rtB = "node_runtime [(''NEXT_PUBLIC_FIREBASE_FUNCTIONS_URL'', ''https://fn.example.com'')] NotFound"
  let ?rtC = "node_runtime production_vars NotFound"
  let ?rtD = "node_runtime [(''NODE_ENV'', ''production'')] NotFound"
  let ?dev = "sample_config Development None None (Some (getDefaultEmulatorConfig None))"
  let ?prod = "sample_config Production None None None"
  let ?cC = "\<lparr> environment = Production,
           firebase = \<lparr> projectId = ''demo-project'', apiKey = Some ''key'',
                        authDomain = Some ''my-app.firebaseapp.com'', storageBucket = None,
                        messagingSenderId = None, appId = None, emulators = None \<rparr>,
           api = \<lparr> apiBaseUrl = ''https://us-central1-my-app.cloudfunctions.net'' \<rparr> \<rparr>"
  have a: "process_env ?rtA ''NEXT_PUBLIC_API_URL'' = Some ''https://api.example.com'' \<and>
           ''https://api.example.com'' \<noteq> []"
    by (simp add: node_runtime_def)
  have b: "\<not> present (process_env ?rtB ''NEXT_PUBLIC_API_URL'') \<and>
           emulators (firebase ?dev) = Some (getDefaultEmulatorConfig None)"
    by (simp add: node_runtime_def present_def sample_config_def)
  have c: "\<not> present (process_env ?rtB ''NEXT_PUBLIC_API_URL'') \<and> emulators (firebase ?prod) = None \<and>
           process_env ?rtB ''NEXT_PUBLIC_FIREBASE_FUNCTIONS_URL'' = Some ''https://fn.example.com'' \<and>
           ''https://fn.example.com'' \<noteq> []"
    by (simp add: node_runtime_def present_def sample_config_def)
  have d: "new_ConfigService ?rtC = Inr ?cC"
    by (simp add: new_ConfigService_def logConfiguration_def isEmulatorMode_def node_runtime_def production_vars_def getEnvironment_def
        loadFirebaseConfig_def getApiBaseUrl_def validate_def present_def or_else_def Let_def)
  have e: "\<not> present (process_env ?rtD ''NEXT_PUBLIC_API_URL'') \<and>
           emulators (loadFirebaseConfig ?rtD None) = None \<and>
           \<not> present (process_env ?rtD ''NEXT_PUBLIC_FIREBASE_FUNCTIONS_URL'')"
    by (simp add: node_runtime_def present_def or_else_def loadFirebaseConfig_def getEnvironment_def Let_def)
  have url: "baseUrl (functions' (getDefaultEmulatorConfig None)) = ''http://localhost:5001/demo-project/us-central1''"
    by (simp add: getDefaultEmulatorConfig_def config_projectId_def Let_def)
  have 1: "getApiBaseUrl ?rtA ?dev = Inr ''https://api.example.com''"
    using apiBaseUrl_priority [of ?rtA "''https://api.example.com''" ?dev] a by blast
  have 2: "getApiBaseUrl ?rtB ?dev = Inr (baseUrl (functions' (getDefaultEmulatorConfig None)))"
    using apiBaseUrl_priority [of ?rtB _ ?dev "getDefaultEmulatorConfig None"] b by blast
  have 3: "getApiBaseUrl ?rtB ?prod = Inr ''https://fn.example.com''"
    using apiBaseUrl_priority [of ?rtB _ ?prod _ "''https://fn.example.com''"] c by blast
  have "getApiBaseUrl ?rtC ?cC = Inr (apiBaseUrl (api ?cC))"
    using apiBaseUrl_priority [of ?rtC _ _ _ _ ?cC] d by blast
  then have 4: "apiBaseUrl (api (projr (new_ConfigService ?rtC))) = ''https://us-central1-my-app.cloudfunctions.net''"
    by (simp add: d)
  have 5: "new_ConfigService ?rtD = Inl (ConfigurationErr (ConfigurationError
         ''API base URL not configured''
         (Some ''No NEXT_PUBLIC_API_URL or Firebase Functions URL found'')
         (Some ''Set NEXT_PUBLIC_API_URL in .env.local or ensure Firebase emulators are configured'')))"
    using apiBaseUrl_priority [of ?rtD] e by blast
  from 1 2 3 4 5 show ?thesis by (simp only: url simp_thms)
qed

subsection \<open>Validation in production\<close>

text \<open>
  C5. For settings with environment production: when \<^verbatim>\<open>apiKey\<close> and \<^verbatim>\<open>authDomain\<close> are
  both present and \<^verbatim>\<open>projectId\<close> is not empty, \<^verbatim>\<open>validate\<close> returns valid with no
  errors; when \<^verbatim>\<open>apiKey\<close> is absent, \<^verbatim>\<open>validate\<close> returns invalid and its errors contain
  the message \<^verbatim>\<open>Firebase apiKey required for production\<close>, which names \<^verbatim>\<open>apiKey\<close>.
\<close>

theorem validate_production:
  assumes "environment config = Production"
  shows "(present (apiKey (firebase config)) \<and> present (authDomain (firebase config)) \<and>
          projectId (firebase config) \<noteq> [] \<longrightarrow>
            validate config = \<lparr> valid = True, errors = None \<rparr>)
       \<and> (\<not> present (apiKey (firebase config)) \<longrightarrow>
            valid (validate config) = False \<and>
            (\<exists>errs. errors (validate config) = Some errs \<and>
                    ''Firebase apiKey required for production'' \<in> set errs \<and>
                    sublist ''apiKey'' ''Firebase apiKey required for production''))"
proof -
  have "''Firebase apiKey required for production'' = ''Firebase '' @ ''apiKey'' @ '' required for production''"
    by simp
  then have n: "sublist ''apiKey'' ''Firebase apiKey required for production''"
    by (simp only: sublist_appendI)
  show ?thesis using assms n by (simp add: validate_def Let_def)
qed

theorem validate_production_witness:
  "validate (sample_config Production (Some ''key'') (Some ''my-app.firebaseapp.com'') None)
     = \<lparr> valid = True, errors = None \<rparr>
 \<and> valid (validate (sample_config Production None (Some ''my-app.firebaseapp.com'') None)) = False
 \<and> (\<exists>errs. errors (validate (sample_config Production None (Some ''my-app.firebaseapp.com'') None)) = Some errs \<and>
            ''Firebase apiKey required for production'' \<in> set errs)"
proof -
  let ?ok = "sample_config Production (Some ''key'') (Some ''my-app.firebaseapp.com'') None"
  let ?bad = "sample_config Production None (Some ''my-app.firebaseapp.com'') None"
  have p1: "environment ?ok = Production" and p2: "environment ?bad = Production"
    by (simp_all add: sample_config_def)
  have h1: "present (apiKey (firebase ?ok)) \<and> present (authDomain (firebase ?ok)) \<and>
            projectId (firebase ?ok) \<noteq> []"
    by (simp add: sample_config_def present_def)
  have h2: "\<not> present (apiKey (firebase ?bad))"
    by (simp add: sample_config_def present_def)
  from validate_production [OF p1] h1 validate_production [OF p2] h2 show ?thesis by blast
qed

subsection \<open>Local endpoints in development\<close>

text \<open>
  C6, as stated, fails at the port 0: with \<^verbatim>\<open>{"emulators": {"firestore": {"port": 0}}}\<close>
  in development the constructor returns an object whose firestore port is the default
  8080 and not the port of the file, because \<^verbatim>\<open>port || 8080\<close> takes 0 for absent.
\<close>

theorem zero_port_replaced_counterexample:
  "\<not> isl (new_ConfigService (node_runtime [] (Parsed (file_with_port Firestore (JNum 0)))))
 \<and> map_option (service_port Firestore)
      (getEmulatorConfig (projr (new_ConfigService
         (node_runtime [] (Parsed (file_with_port Firestore (JNum 0)))))))
     = Some (JNum 8080)
 \<and> JNum 8080 \<noteq> JNum 0"
proof -
  let ?rt = "node_runtime [] (Parsed (file_with_port Firestore (JNum 0)))"
  have d: "getEnvironment ?rt = Development"
    by (simp add: node_runtime_def getEnvironment_def present_def or_else_def)
  have l: "port (firestore (loadEmulatorConfig ?rt None)) = JNum 8080"
    by (simp add: loadEmulatorConfig_def readEmulatorConfig_def node_runtime_def file_with_port_def
        opt_prop_def or_default_def Let_def)
  then have "toString (numberToString ?rt) (port (firestore (loadEmulatorConfig ?rt None))) \<noteq> None"
    by simp
  from new_ConfigService_development [OF d this] obtain c where c: "new_ConfigService ?rt = Inr c" ..
  from getEmulatorConfig_development [OF c d] l show ?thesis by (simp add: c)
qed

text \<open>
  C6, amended. In development, when \<^verbatim>\<open>firebase.json\<close> is absent, construction succeeds,
  \<^verbatim>\<open>getEmulatorConfig\<close> is not null and every service has its fixed default port (auth
  9099, firestore 8080, functions 5001, storage 9199, hosting 5000). When the file, read
  under Node.js, has an \<^verbatim>\<open>emulators\<close> section that gives a port number for one service
  only, that service gets the port of the file if it is not 0 and its fixed default if it
  is 0, and every other service keeps its fixed default.
\<close>

theorem development_endpoint_merging:
  assumes "getEnvironment rt = Development"
  shows "(firebase_json rt = NotFound \<longrightarrow>
           (\<exists>c ems. new_ConfigService rt = Inr c \<and> getEmulatorConfig c = Some ems \<and>
                    (\<forall>s. service_port s ems = default_port s)))
       \<and> (isNode rt \<and> firebase_json rt = Parsed fj \<and> get_prop fj ''emulators'' = Some em \<and>
          opt_prop (get_prop em (service_key s)) ''port'' = Some (JNum n) \<and>
          (\<forall>s'. s' \<noteq> s \<longrightarrow> opt_prop (get_prop em (service_key s')) ''port'' = None) \<longrightarrow>
           (\<exists>c ems. new_ConfigService rt = Inr c \<and> getEmulatorConfig c = Some ems \<and>
                    service_port s ems = (if n = 0 then default_port s else JNum n) \<and>
                    (\<forall>s'. s' \<noteq> s \<longrightarrow> service_port s' ems = default_port s')))"
proof (intro conjI impI)
  assume nf: "firebase_json rt = NotFound"
  then have "\<exists>c. new_ConfigService rt = Inr c"
    using assms by (simp add: new_ConfigService_development_no_file)
  then obtain c where c: "new_ConfigService rt = Inr c" ..
  from nf have "loadEmulatorConfig rt None = getDefaultEmulatorConfig None"
    by (simp add: loadEmulatorConfig_default)
  then show "\<exists>c ems. new_ConfigService rt = Inr c \<and> getEmulatorConfig c = Some ems \<and>
                  (\<forall>s. service_port s ems = default_port s)"
    using c getEmulatorConfig_development [OF c assms] by (simp add: service_port_default)
next
  assume h: "isNode rt \<and> firebase_json rt = Parsed fj \<and> get_prop fj ''emulators'' = Some em \<and>
        opt_prop (get_prop em (service_key s)) ''port'' = Some (JNum n) \<and>
        (\<forall>s'. s' \<noteq> s \<longrightarrow> opt_prop (get_prop em (service_key s')) ''port'' = None)"
  then have em: "truthy em" by (blast intro: port_present_truthy)
  from h have rs: "resolved_port em s = (if n = 0 then default_port s else JNum n)"
    and ro: "\<And>s'. s' \<noteq> s \<Longrightarrow> resolved_port em s' = default_port s'"
    by (simp_all add: resolved_port_def or_default_def)
  have dn: "\<And>s'. \<exists>m. default_port s' = JNum m"
  proof -
    fix s' show "\<exists>m. default_port s' = JNum m" by (cases s') simp_all
  qed
  have num: "\<And>s'. \<exists>m. resolved_port em s' = JNum m"
  proof -
    fix s' show "\<exists>m. resolved_port em s' = JNum m"
      using rs ro [of s'] dn [of s'] by (cases "s' = s") auto
  qed
  have ts: "\<And>s'. toString (numberToString rt) (resolved_port em s') \<noteq> None"
  proof -
    fix s' from num [of s'] show "toString (numberToString rt) (resolved_port em s') \<noteq> None"
      by auto
  qed
  from h em have p: "\<And>s'. service_port s' (loadEmulatorConfig rt None) = resolved_port em s'"
    by (simp add: loadEmulatorConfig_Parsed_port ts [of Auth] ts [of Functions])
  from p [of Firestore] ts [of Firestore]
  have "toString (numberToString rt) (port (firestore (loadEmulatorConfig rt None))) \<noteq> None"
    by simp
  from new_ConfigService_development [OF assms this] obtain c where c: "new_ConfigService rt = Inr c" ..
  show "\<exists>c ems. new_ConfigService rt = Inr c \<and> getEmulatorConfig c = Some ems \<and>
                  service_port s ems = (if n = 0 then default_port s else JNum n) \<and>
                  (\<forall>s'. s' \<noteq> s \<longrightarrow> service_port s' ems = default_port s')"
    using c getEmulatorConfig_development [OF c assms] p rs ro by simp
qed

theorem development_endpoint_merging_witness:
  "map_option (\<lambda>ems. map (\<lambda>s. service_port s ems) [Auth, Firestore, Functions, Storage, Hosting])
     (getEmulatorConfig (projr (new_ConfigService (node_runtime [] NotFound))))
     = Some [JNum 9099, JNum 8080, JNum 5001, JNum 9199, JNum 5000]
 \<and> map_option (\<lambda>ems. map (\<lambda>s. service_port s ems) [Auth, Firestore, Functions, Storage, Hosting])
     (getEmulatorConfig (projr (new_ConfigService
        (node_runtime [] (Parsed (file_with_port Firestore (JNum 9000)))))))
     = Some [JNum 9099, JNum 9000, JNum 5001, JNum 9199, JNum 5000]
 \<and> map_option (\<lambda>ems. map (\<lambda>s. service_port s ems) [Auth, Firestore, Functions, Storage, Hosting])
     (getEmulatorConfig (projr (new_ConfigService
        (node_runtime [] (Parsed (file_with_port Storage (JNum 0)))))))
     = Some [JNum 9099, JNum 8080, JNum 5001, JNum 9199, JNum 5000]"
proof -
  let ?rtA = "node_runtime [] NotFound"
  let ?rt = "\<lambda>s n. node_runtime [] (Parsed (file_with_port s (JNum n)))"
  let ?em = "\<lambda>s n. JObj [(service_key s, JObj [(''port'', JNum n)])]"
  have dA: "getEnvironment ?rtA = Development" and d: "\<And>s n. getEnvironment (?rt s n) = Development"
    by (simp_all add: node_runtime_def getEnvironment_def present_def or_else_def)
  have hA: "firebase_json ?rtA = NotFound" by (simp add: node_runtime_def)
  have others: "\<And>s n. \<forall>s'. s' \<noteq> s \<longrightarrow> opt_prop (get_prop (?em s n) (service_key s')) ''port'' = None"
  proof (intro allI impI)
    fix s s' :: service and n :: rat assume "s' \<noteq> s"
    then show "opt_prop (get_prop (?em s n) (service_key s')) ''port'' = None"
      by (cases s; cases s') (simp_all add: opt_prop_def)
  qed
  have h: "\<And>s n. isNode (?rt s n) \<and> firebase_json (?rt s n) = Parsed (file_with_port s (JNum n)) \<and>
            get_prop (file_with_port s (JNum n)) ''emulators'' = Some (?em s n) \<and>
            opt_prop (get_prop (?em s n) (service_key s)) ''port'' = Some (JNum n) \<and>
            (\<forall>s'. s' \<noteq> s \<longrightarrow> opt_prop (get_prop (?em s n) (service_key s')) ''port'' = None)"
    using others by (simp add: node_runtime_def file_with_port_def opt_prop_def)
  from development_endpoint_merging [OF dA] hA
  obtain c ems where A: "new_ConfigService ?rtA = Inr c" "getEmulatorConfig c = Some ems"
      "\<forall>s. service_port s ems = default_port s"
    by blast
  from development_endpoint_merging [OF d, of Firestore 9000 "file_with_port Firestore (JNum 9000)"
      "?em Firestore 9000" Firestore 9000] h [of Firestore 9000]
  obtain c' ems' where B: "new_ConfigService (?rt Firestore 9000) = Inr c'" "getEmulatorConfig c' = Some ems'"
      "service_port Firestore ems' = (if (9000::rat) = 0 then default_port Firestore else JNum 9000)"
      "\<forall>s'. s' \<noteq> Firestore \<longrightarrow> service_port s' ems' = default_port s'"
    by blast
  from development_endpoint_merging [OF d, of Storage 0 "file_with_port Storage (JNum 0)"
      "?em Storage 0" Storage 0] h [of Storage 0]
  obtain c'' ems'' where C: "new_ConfigService (?rt Storage 0) = Inr c''" "getEmulatorConfig c'' = Some ems''"
      "service_port Storage ems'' = (if (0::rat) = 0 then default_port Storage else JNum 0)"
      "\<forall>s'. s' \<noteq> Storage \<longrightarrow> service_port s' ems'' = default_port s'"
    by blast
  have B': "service_port Auth ems' = default_port Auth" "service_port Functions ems' = default_port Functions"
    "service_port Storage ems' = default_port Storage" "service_port Hosting ems' = default_port Hosting"
    using B(4) [rule_format, of Auth] B(4) [rule_format, of Functions]
      B(4) [rule_format, of Storage] B(4) [rule_format, of Hosting]
    by simp_all
  have C': "service_port Auth ems'' = default_port Auth" "service_port Functions ems'' = default_port Functions"
    "service_port Firestore ems'' = default_port Firestore" "service_port Hosting ems'' = default_port Hosting"
    using C(4) [rule_format, of Auth] C(4) [rule_format, of Functions]
      C(4) [rule_format, of Firestore] C(4) [rule_format, of Hosting]
    by simp_all
  show ?thesis
    using A(3) [rule_format, of Auth] A(3) [rule_format, of Firestore]
      A(3) [rule_format, of Functions] A(3) [rule_format, of Storage]
      A(3) [rule_format, of Hosting] B(3) B' C(3) C'
    by (simp add: A(1,2) B(1,2) C(1,2))
qed

subsection \<open>The environment accessor\<close>

text \<open>
  C7, as stated, fails: \<^verbatim>\<open>getEnvironment\<close> does not read the cached settings. An object
  constructed in development keeps \<^verbatim>\<open>environment = development\<close>, while
  \<^verbatim>\<open>getEnvironment\<close>, called after \<^verbatim>\<open>NODE_ENV\<close> has become \<^verbatim>\<open>production\<close>, returns
  production.
\<close>

theorem getEnvironment_rederived_counterexample:
  "\<not> isl (new_ConfigService (node_runtime [] NotFound))
 \<and> environment (projr (new_ConfigService (node_runtime [] NotFound))) = Development
 \<and> getEnvironment (node_runtime [(''NODE_ENV'', ''production'')] NotFound) = Production"
proof -
  have d: "getEnvironment (node_runtime [] NotFound) = Development"
    by (simp add: node_runtime_def getEnvironment_def present_def or_else_def)
  have nf: "firebase_json (node_runtime [] NotFound) = NotFound \<or>
            firebase_json (node_runtime [] NotFound) = ReadFailure \<or>
            firebase_json (node_runtime [] NotFound) = Malformed"
    by (simp add: node_runtime_def)
  from new_ConfigService_development_no_file [OF d nf] obtain c
    where c: "new_ConfigService (node_runtime [] NotFound) = Inr c" ..
  have p: "getEnvironment (node_runtime [(''NODE_ENV'', ''production'')] NotFound) = Production"
    by (simp add: node_runtime_def getEnvironment_def present_def or_else_def)
  show ?thesis using new_ConfigService_Inr(1) [OF c] d p by (simp add: c)
qed

text \<open>
  C7, amended. The \<^verbatim>\<open>environment\<close> field of a constructed object is the value of
  \<^verbatim>\<open>getEnvironment\<close> at construction, and \<^verbatim>\<open>isProduction\<close> and \<^verbatim>\<open>isEmulatorMode\<close> read
  that cached field. \<^verbatim>\<open>getEnvironment\<close> derives the environment from
  \<^verbatim>\<open>NEXT_PUBLIC_APP_ENV\<close> and \<^verbatim>\<open>NODE_ENV\<close> on every call, so it returns the value fixed at
  construction as long as these two signals are unchanged.
\<close>

theorem environment_cached_getEnvironment_rederived:
  assumes "new_ConfigService rt = Inr c"
  shows "environment c = getEnvironment rt
       \<and> isProduction c = (getEnvironment rt = Production)
       \<and> isEmulatorMode c = (getEnvironment rt = Development)
       \<and> (process_env rt' ''NEXT_PUBLIC_APP_ENV'' = process_env rt ''NEXT_PUBLIC_APP_ENV'' \<and>
          process_env rt' ''NODE_ENV'' = process_env rt ''NODE_ENV'' \<longrightarrow>
            getEnvironment rt' = environment c)"
  using new_ConfigService_Inr(1,2) [OF assms]
  by (simp add: isProduction_def isEmulatorMode_def emulators_loadFirebaseConfig getEnvironment_def)

theorem environment_cached_getEnvironment_rederived_witness:
  "environment (projr (new_ConfigService (node_runtime production_vars NotFound))) = Production
 \<and> isProduction (projr (new_ConfigService (node_runtime production_vars NotFound)))
 \<and> \<not> isEmulatorMode (projr (new_ConfigService (node_runtime production_vars NotFound)))
 \<and> getEnvironment (node_runtime [(''NODE_ENV'', ''production'')] Malformed)
     = environment (projr (new_ConfigService (node_runtime production_vars NotFound)))"
proof -
  let ?rt = "node_runtime production_vars NotFound"
  let ?rt' = "node_runtime [(''NODE_ENV'', ''production'')] Malformed"
  let ?c = "\<lparr> environment = Production,
           firebase = \<lparr> projectId = ''demo-project'', apiKey = Some ''key'',
                        authDomain = Some ''my-app.firebaseapp.com'', storageBucket = None,
                        messagingSenderId = None, appId = None, emulators = None \<rparr>,
           api = \<lparr> apiBaseUrl = ''https://us-central1-my-app.cloudfunctions.net'' \<rparr> \<rparr>"
  have h: "new_ConfigService ?rt = Inr ?c"
    by (simp add: new_ConfigService_def logConfiguration_def isEmulatorMode_def node_runtime_def production_vars_def getEnvironment_def
        loadFirebaseConfig_def getApiBaseUrl_def validate_def present_def or_else_def Let_def)
  have e: "getEnvironment ?rt = Production"
    by (simp add: node_runtime_def production_vars_def getEnvironment_def present_def or_else_def)
  have same: "process_env ?rt' ''NEXT_PUBLIC_APP_ENV'' = process_env ?rt ''NEXT_PUBLIC_APP_ENV'' \<and>
              process_env ?rt' ''NODE_ENV'' = process_env ?rt ''NODE_ENV''"
    by (simp add: node_runtime_def production_vars_def)
  from environment_cached_getEnvironment_rederived [OF h, of ?rt'] same e
  show ?thesis by (simp add: h)
qed

subsection \<open>Port values that are not integers\<close>

text \<open>
  C8, as stated, fails: a port that is present but not an integer is not replaced by the
  default. With \<^verbatim>\<open>{"emulators": {"firestore": {"port": "abc"}}}\<close> the firestore port is
  the string \<^verbatim>\<open>abc\<close>, and with the port 9000.5 it is 9000.5; neither is 8080.
\<close>

theorem non_integer_port_kept_counterexample:
  "port (firestore (loadEmulatorConfig (node_runtime [] (Parsed (file_with_port Firestore (JStr ''abc'')))) None))
     = JStr ''abc''
 \<and> port (firestore (loadEmulatorConfig (node_runtime [] (Parsed (file_with_port Firestore (JNum (18001 / 2))))) None))
     = JNum (18001 / 2)
 \<and> JStr ''abc'' \<noteq> default_port Firestore
 \<and> JNum (18001 / 2) \<noteq> default_port Firestore"
  by (simp add: loadEmulatorConfig_def readEmulatorConfig_def node_runtime_def file_with_port_def
      opt_prop_def or_default_def Let_def)

text \<open>
  C8, amended. For a file read under Node.js, a service's port that is present in the
  \<^verbatim>\<open>emulators\<close> section is replaced by the fixed default only when it is falsy
  (null, false, 0 or the empty string); any other value, integer or not, is kept as the
  resolved port. The one exception is a file in which the auth or functions port cannot be
  converted to a string: the exception is caught and every service gets its default.
\<close>

theorem port_default_only_when_falsy:
  assumes "isNode rt" and "firebase_json rt = Parsed fj"
    and "get_prop fj ''emulators'' = Some em"
    and "opt_prop (get_prop em (service_key s)) ''port'' = Some p"
  shows "service_port s (loadEmulatorConfig rt tc) =
     (if toString (numberToString rt) (resolved_port em Auth) = None \<or>
         toString (numberToString rt) (resolved_port em Functions) = None
      then default_port s
      else if truthy p then p else default_port s)"
  using assms(4)
  by (simp add: loadEmulatorConfig_Parsed_port [OF assms(1-3) port_present_truthy [OF assms(4)]]
      resolved_port_def or_default_def)

theorem port_default_only_when_falsy_witness:
  "service_port Firestore
     (loadEmulatorConfig (node_runtime [] (Parsed (file_with_port Firestore (JStr ''abc'')))) None)
     = JStr ''abc''
 \<and> service_port Firestore
     (loadEmulatorConfig (node_runtime [] (Parsed (file_with_port Firestore (JNum 0)))) None)
     = JNum 8080
 \<and> service_port Auth
     (loadEmulatorConfig (node_runtime [] (Parsed (file_with_port Auth (JObj [(''toString'', JNull)])))) None)
     = JNum 9099"
proof -
  let ?rt = "\<lambda>s p. node_runtime [] (Parsed (file_with_port s p))"
  let ?em = "\<lambda>s p. JObj [(service_key s, JObj [(''port'', p)])]"
  have h: "\<And>s p. isNode (?rt s p)" "\<And>s p. firebase_json (?rt s p) = Parsed (file_with_port s p)"
    "\<And>s p. get_prop (file_with_port s p) ''emulators'' = Some (?em s p)"
    "\<And>s p. opt_prop (get_prop (?em s p) (service_key s)) ''port'' = Some p"
    by (simp_all add: node_runtime_def file_with_port_def opt_prop_def)
  note T = port_default_only_when_falsy [OF h(1) h(2) h(3) h(4), of _ _ None]
  have 1: "service_port Firestore (loadEmulatorConfig (?rt Firestore (JStr ''abc'')) None) = JStr ''abc''"
    unfolding T [of Firestore "JStr ''abc''"]
    by (simp add: resolved_port_def or_default_def opt_prop_def node_runtime_def)
  have 2: "service_port Firestore (loadEmulatorConfig (?rt Firestore (JNum 0)) None) = JNum 8080"
    unfolding T [of Firestore "JNum 0"]
    by (simp add: resolved_port_def or_default_def opt_prop_def node_runtime_def)
  have 3: "service_port Auth (loadEmulatorConfig (?rt Auth (JObj [(''toString'', JNull)])) None) = JNum 9099"
    unfolding T [of Auth "JObj [(''toString'', JNull)]"]
    by (simp add: resolved_port_def or_default_def opt_prop_def node_runtime_def)
  from 1 2 3 show ?thesis by blast
qed

subsection \<open>What aborts construction\<close>

text \<open>
  C9. Loading the local endpoints never raises, and only a validation failure or a missing
  API base URL should abort construction. The loader does degrade to the defaults (lemma
  \<open>loadEmulatorConfig_falls_back\<close>), but the constructor does not keep the promise: with
  \<^verbatim>\<open>{"emulators": {"firestore": {"port": {"toString": null}}}}\<close> the loader keeps the
  object as the firestore port, and \<^verbatim>\<open>logConfiguration\<close>, called outside every \<^verbatim>\<open>try\<close>,
  throws a TypeError when it interpolates that port, so the constructor throws and the
  singleton stays unset. The same value as the auth port is converted inside the \<^verbatim>\<open>try\<close>
  block of the loader, is caught there, and construction succeeds with the defaults.
\<close>

theorem firestore_port_object_aborts_construction:
  "port (firestore (loadEmulatorConfig
      (node_runtime [] (Parsed (file_with_port Firestore (JObj [(''toString'', JNull)])))) None))
     = JObj [(''toString'', JNull)]
 \<and> new_ConfigService (node_runtime [] (Parsed (file_with_port Firestore (JObj [(''toString'', JNull)]))))
     = Inl (JsException TypeError)
 \<and> getInstance (node_runtime [] (Parsed (file_with_port Firestore (JObj [(''toString'', JNull)])))) None
     = (Inl (JsException TypeError), None)
 \<and> loadEmulatorConfig
      (node_runtime [] (Parsed (file_with_port Auth (JObj [(''toString'', JNull)])))) None
     = getDefaultEmulatorConfig None
 \<and> \<not> isl (new_ConfigService
      (node_runtime [] (Parsed (file_with_port Auth (JObj [(''toString'', JNull)])))))"
proof -
  let ?rtF = "node_runtime [] (Parsed (file_with_port Firestore (JObj [(''toString'', JNull)])))"
  let ?rtA = "node_runtime [] (Parsed (file_with_port Auth (JObj [(''toString'', JNull)])))"
  have 1: "port (firestore (loadEmulatorConfig ?rtF None)) = JObj [(''toString'', JNull)]"
    by (simp add: loadEmulatorConfig_def readEmulatorConfig_def node_runtime_def file_with_port_def
        opt_prop_def or_default_def Let_def)
  have dF: "getEnvironment ?rtF = Development" and dA: "getEnvironment ?rtA = Development"
    by (simp_all add: node_runtime_def getEnvironment_def present_def or_else_def)
  have "toString (numberToString ?rtF) (port (firestore (loadEmulatorConfig ?rtF None))) = None"
    by (simp add: 1)
  with dF have 2: "new_ConfigService ?rtF = Inl (JsException TypeError)"
    by (rule new_ConfigService_development_throws)
  have 3: "getInstance ?rtF None = (Inl (JsException TypeError), None)"
    by (simp add: getInstance_def 2)
  have 4: "loadEmulatorConfig ?rtA None = getDefaultEmulatorConfig None"
    by (simp add: loadEmulatorConfig_def readEmulatorConfig_def node_runtime_def file_with_port_def
        opt_prop_def or_default_def Let_def)
  from new_ConfigService_development_default [OF dA 4] have 5: "\<not> isl (new_ConfigService ?rtA)"
    by auto
  from 1 2 3 4 5 show ?thesis by blast
qed

subsection \<open>Local endpoints outside development\<close>

text \<open>
  C10. A successfully constructed settings object whose environment is production (or
  staging) has no \<^verbatim>\<open>emulators\<close> field: \<^verbatim>\<open>getEmulatorConfig\<close> is null and
  \<^verbatim>\<open>isEmulatorMode\<close> is false, although \<^verbatim>\<open>validate\<close> does not check it.
\<close>

theorem no_emulators_outside_development:
  assumes "new_ConfigService rt = Inr c" and "environment c \<noteq> Development"
  shows "emulators (firebase c) = None \<and> getEmulatorConfig c = None \<and> \<not> isEmulatorMode c"
  using new_ConfigService_Inr(1,2) [OF assms(1)] assms(2)
  by (simp add: emulators_loadFirebaseConfig getEmulatorConfig_def isEmulatorMode_def)

theorem no_emulators_outside_development_witness:
  "new_ConfigService (node_runtime production_vars NotFound) =
     Inr \<lparr> environment = Production,
           firebase = \<lparr> projectId = ''demo-project'', apiKey = Some ''key'',
                        authDomain = Some ''my-app.firebaseapp.com'', storageBucket = None,
                        messagingSenderId = None, appId = None, emulators = None \<rparr>,
           api = \<lparr> apiBaseUrl = ''https://us-central1-my-app.cloudfunctions.net'' \<rparr> \<rparr>
   \<and> getEmulatorConfig (projr (new_ConfigService (node_runtime production_vars NotFound))) = None"
proof -
  let ?c = "\<lparr> environment = Production,
           firebase = \<lparr> projectId = ''demo-project'', apiKey = Some ''key'',
                        authDomain = Some ''my-app.firebaseapp.com'', storageBucket = None,
                        messagingSenderId = None, appId = None, emulators = None \<rparr>,
           api = \<lparr> apiBaseUrl = ''https://us-central1-my-app.cloudfunctions.net'' \<rparr> \<rparr>"
  have h: "new_ConfigService (node_runtime production_vars NotFound) = Inr ?c"
    by (simp add: new_ConfigService_def logConfiguration_def isEmulatorMode_def node_runtime_def production_vars_def getEnvironment_def
        loadFirebaseConfig_def getApiBaseUrl_def validate_def present_def or_else_def Let_def)
  have e: "environment ?c \<noteq> Development" by simp
  from no_emulators_outside_development [OF h e] show ?thesis by (simp add: h)
qed

end
